theory Spec2Isabelle
  imports Main "HOL-Library.AList"
begin

section \<open>The trading agent of rounds/tutorial.py\<close>

text \<open>
  The module holds a bounded logger (class Logger, one global instance), the per-symbol
  policies (class Product and its subclasses RainforestResin and Kelp) and the
  orchestrator (class Trader). Each method is embedded as a function of the same name,
  prefixed by its class. Mutated objects (the logger, a policy, the registry of
  policies, the standard output) are passed in and returned updated, together with the
  outcome of the call: \<open>Inr\<close> of the returned value, or \<open>Inl\<close> of the exception raised.
\<close>

subsection \<open>Python values\<close>

text \<open>
  A Python \<open>str\<close> is a \<open>string\<close>, one \<open>char\<close> per code point (code points below
  256), so that \<open>length\<close> is Python's \<open>len\<close>. Python's \<open>int\<close> is \<open>int\<close>. A \<open>dict\<close>
  is an association list in insertion order; a well-formed one has distinct keys.
\<close>

type_synonym symbol = string

datatype py_error = KeyError | ValueError

text \<open>\<open>d[k]\<close>: raises KeyError when the key is absent.\<close>

definition dict_getitem :: "('k \<times> 'v) list \<Rightarrow> 'k \<Rightarrow> py_error + 'v" where
  "dict_getitem d k = (case map_of d k of None \<Rightarrow> Inl KeyError | Some v \<Rightarrow> Inr v)"

text \<open>\<open>min(xs)\<close> and \<open>max(xs)\<close> of a sequence: ValueError on an empty one.\<close>

fun py_min :: "int list \<Rightarrow> py_error + int" where
  "py_min [] = Inl ValueError"
| "py_min (x # xs) = Inr (fold min xs x)"

fun py_max :: "int list \<Rightarrow> py_error + int" where
  "py_max [] = Inl ValueError"
| "py_max (x # xs) = Inr (fold max xs x)"

text \<open>
  The slice \<open>xs[:k]\<close>: a negative \<open>k\<close> counts from the end, and a bound that is still
  negative then is 0.
\<close>

definition slice_to :: "'a list \<Rightarrow> int \<Rightarrow> 'a list" where
  "slice_to xs k = (if 0 \<le> k then take (nat k) xs else take (nat (int (length xs) + k)) xs)"

text \<open>\<open>sep.join(xs)\<close>.\<close>

fun join :: "string \<Rightarrow> string list \<Rightarrow> string" where
  "join sep [] = []"
| "join sep [x] = x"
| "join sep (x # y # ys) = x @ sep @ join sep (y # ys)"

text \<open>\<open>str(i)\<close> of an integer: its decimal digits, after a minus sign when negative.\<close>

fun digits :: "nat \<Rightarrow> string" where
  "digits n = (if n < 10 then [''0123456789'' ! n] else digits (n div 10) @ [''0123456789'' ! (n mod 10)])"

declare digits.simps [simp del]

definition str_int :: "int \<Rightarrow> string" where
  "str_int i = (if i < 0 then CHR ''-'' # digits (nat (- i)) else digits (nat i))"

definition ends_with :: "string \<Rightarrow> string \<Rightarrow> bool" where
  "ends_with s sfx = (length sfx \<le> length s \<and> drop (length s - length sfx) s = sfx)"

subsection \<open>json.dumps\<close>

text \<open>
  The values handed to \<open>json.dumps\<close>: None, integers, floats, strings, lists and dicts
  (keyed by strings or by integers). The float type and Python's \<open>repr\<close> of a float are
  not part of the module: the type is the parameter \<open>'f\<close>, its rendering the parameter
  \<open>float_repr\<close> of \<open>to_json\<close>.
\<close>

datatype key = KStr string | KInt int

datatype 'f pyval =
    PNone
  | PInt int
  | PFloat 'f
  | PStr string
  | PList "'f pyval list"
  | PDict "(key \<times> 'f pyval) list"

text \<open>
  The encoder's string escapes (\<open>ensure_ascii\<close>, the default): the quote and the
  backslash get a backslash, the five short control escapes are \<open>\b \t \n \f \r\<close>, and
  every other character outside the printable ASCII range is \<open>\uXXXX\<close>.
\<close>

definition hex4 :: "nat \<Rightarrow> string" where
  "hex4 n = map (\<lambda>d. ''0123456789abcdef'' ! d)
     [n div 4096 mod 16, n div 256 mod 16, n div 16 mod 16, n mod 16]"

definition escape_char :: "char \<Rightarrow> string" where
  "escape_char c =
     (if c = CHR 0x22 then [CHR 0x5C, CHR 0x22]
      else if c = CHR 0x5C then [CHR 0x5C, CHR 0x5C]
      else if c = CHR 0x08 then [CHR 0x5C, CHR ''b'']
      else if c = CHR 0x09 then [CHR 0x5C, CHR ''t'']
      else if c = CHR 0x0A then [CHR 0x5C, CHR ''n'']
      else if c = CHR 0x0C then [CHR 0x5C, CHR ''f'']
      else if c = CHR 0x0D then [CHR 0x5C, CHR ''r'']
      else if (of_char c :: nat) < 32 \<or> 126 < (of_char c :: nat)
        then [CHR 0x5C, CHR ''u''] @ hex4 (of_char c)
      else [c])"

definition json_string :: "string \<Rightarrow> string" where
  "json_string s = [CHR 0x22] @ concat (map escape_char s) @ [CHR 0x22]"

definition json_key :: "key \<Rightarrow> string" where
  "json_key k = (case k of KStr s \<Rightarrow> json_string s | KInt i \<Rightarrow> json_string (str_int i))"

text \<open>
  \<open>json.dumps(v, cls=ProsperityEncoder, separators=(",", ":"))\<close>. The encoder class only
  adds a rendering of objects, and the logger hands it none.
\<close>

fun to_json :: "('f \<Rightarrow> string) \<Rightarrow> 'f pyval \<Rightarrow> string" where
  "to_json float_repr PNone = ''null''"
| "to_json float_repr (PInt i) = str_int i"
| "to_json float_repr (PFloat x) = float_repr x"
| "to_json float_repr (PStr s) = json_string s"
| "to_json float_repr (PList xs) = ''['' @ join '','' (map (to_json float_repr) xs) @ '']''"
| "to_json float_repr (PDict kvs) =
     ''{'' @ join '','' (map (\<lambda>kv. json_key (fst kv) @ '':'' @ to_json float_repr (snd kv)) kvs) @ ''}''"

subsection \<open>Logger.truncate\<close>

definition Logger_truncate :: "string \<Rightarrow> int \<Rightarrow> string" where
  "Logger_truncate val max_length =
     (if int (length val) \<le> max_length then val
      else slice_to val (max_length - 3) @ ''...'')"

subsection \<open>The data model\<close>

text \<open>
  Modelled from the spec: the classes of the \<open>datamodel\<close> module, which the source
  imports and which is not among its files. Their fields are the ones the spec's data
  model lists and the source reads. A quantity on the sell side of a book is encoded
  negative. Buyer and seller of a trade may be \<open>None\<close>.
\<close>

record Listing =
  symbol :: symbol
  product :: string
  denomination :: string

record OrderDepth =
  buy_orders :: "(int \<times> int) list"
  sell_orders :: "(int \<times> int) list"

record Trade =
  symbol :: symbol
  price :: int
  quantity :: int
  buyer :: "string option"
  seller :: "string option"
  timestamp :: int

record Order =
  symbol :: symbol
  price :: int
  quantity :: int

record 'f ConversionObservation =
  bidPrice :: 'f
  askPrice :: 'f
  transportFees :: 'f
  exportTariff :: 'f
  importTariff :: 'f
  sugarPrice :: 'f
  sunlightIndex :: 'f

record 'f Observation =
  plainValueObservations :: "(string \<times> int) list"
  conversionObservations :: "(string \<times> 'f ConversionObservation) list"

record 'f TradingState =
  timestamp :: int
  traderData :: string
  listings :: "(symbol \<times> Listing) list"
  order_depths :: "(symbol \<times> OrderDepth) list"
  own_trades :: "(symbol \<times> Trade list) list"
  market_trades :: "(symbol \<times> Trade list) list"
  position :: "(string \<times> int) list"
  observations :: "'f Observation"

subsection \<open>The standard output\<close>

text \<open>
  The built-in \<open>print(s)\<close> writes \<open>s\<close> and a newline to the standard output, and raises
  ValueError when that stream is closed.
\<close>

record stdout =
  closed :: bool
  written :: "string list"

definition builtin_print :: "string \<Rightarrow> stdout \<Rightarrow> py_error + stdout" where
  "builtin_print s out =
     (if closed out then Inl ValueError
      else Inr (out\<lparr>written := written out @ [s @ [CHR 0x0A]]\<rparr>))"

subsection \<open>class Logger\<close>

record Logger =
  logs :: string
  max_log_length :: int

definition Logger_init :: Logger where
  "Logger_init = \<lparr>logs = '''', max_log_length = 3750\<rparr>"

text \<open>
  \<open>Logger.print(*objects)\<close> with the default separator and end; the callers pass
  strings, whose \<open>str\<close> is the string itself.
\<close>

definition Logger_print :: "Logger \<Rightarrow> string list \<Rightarrow> Logger" where
  "Logger_print self objects = self\<lparr>logs := logs self @ join '' '' objects @ [CHR 0x0A]\<rparr>"

definition pstr_opt :: "string option \<Rightarrow> 'f pyval" where
  "pstr_opt x = (case x of None \<Rightarrow> PNone | Some s \<Rightarrow> PStr s)"

definition pdict_int :: "(int \<times> int) list \<Rightarrow> 'f pyval" where
  "pdict_int d = PDict (map (\<lambda>(k, v). (KInt k, PInt v)) d)"

definition pdict_str :: "(string \<times> 'f pyval) list \<Rightarrow> 'f pyval" where
  "pdict_str d = PDict (map (\<lambda>(k, v). (KStr k, v)) d)"

definition Logger_compress_listings :: "(symbol \<times> Listing) list \<Rightarrow> 'f pyval list" where
  "Logger_compress_listings listings' =
     foldl (\<lambda>compressed listing. compressed @
         [PList [PStr (Listing.symbol listing), PStr (product listing), PStr (denomination listing)]])
       [] (map snd listings')"

text \<open>
  The loop assigns \<open>compressed[symbol]\<close>: the value of a key already present is
  replaced in place, a new key is added last (\<open>AList.update\<close>).
\<close>

definition Logger_compress_order_depths ::
    "(symbol \<times> OrderDepth) list \<Rightarrow> (symbol \<times> 'f pyval) list" where
  "Logger_compress_order_depths order_depths' =
     foldl (\<lambda>compressed (symbol, order_depth).
         AList.update symbol
           (PList [pdict_int (buy_orders order_depth), pdict_int (sell_orders order_depth)])
           compressed)
       [] order_depths'"

definition Logger_compress_trades :: "(symbol \<times> Trade list) list \<Rightarrow> 'f pyval list" where
  "Logger_compress_trades trades =
     foldl (\<lambda>compressed arr.
         foldl (\<lambda>compressed trade. compressed @
             [PList [PStr (Trade.symbol trade), PInt (Trade.price trade),
                     PInt (Trade.quantity trade), pstr_opt (buyer trade),
                     pstr_opt (seller trade), PInt (Trade.timestamp trade)]])
           compressed arr)
       [] (map snd trades)"

definition Logger_compress_observations :: "'f Observation \<Rightarrow> 'f pyval list" where
  "Logger_compress_observations observations' =
     (let conversion_observations =
        foldl (\<lambda>acc (product, observation).
            AList.update product
              (PList [PFloat (bidPrice observation), PFloat (askPrice observation),
                      PFloat (transportFees observation), PFloat (exportTariff observation),
                      PFloat (importTariff observation), PFloat (sugarPrice observation),
                      PFloat (sunlightIndex observation)])
              acc)
          [] (conversionObservations observations')
      in [pdict_str (map (\<lambda>(k, v). (k, PInt v)) (plainValueObservations observations')),
          pdict_str conversion_observations])"

definition Logger_compress_orders :: "(symbol \<times> Order list) list \<Rightarrow> 'f pyval list" where
  "Logger_compress_orders orders =
     foldl (\<lambda>compressed arr.
         foldl (\<lambda>compressed order. compressed @
             [PList [PStr (Order.symbol order), PInt (Order.price order),
                     PInt (Order.quantity order)]])
           compressed arr)
       [] (map snd orders)"

definition Logger_compress_state :: "'f TradingState \<Rightarrow> string \<Rightarrow> 'f pyval list" where
  "Logger_compress_state state trader_data =
     [PInt (TradingState.timestamp state),
      PStr trader_data,
      PList (Logger_compress_listings (listings state)),
      pdict_str (Logger_compress_order_depths (order_depths state)),
      PList (Logger_compress_trades (own_trades state)),
      PList (Logger_compress_trades (market_trades state)),
      pdict_str (map (\<lambda>(k, v). (k, PInt v)) (position state)),
      PList (Logger_compress_observations (observations state))]"

text \<open>
  \<open>Logger.flush\<close>. The line is printed before the buffer is reset, outside any
  \<open>try\<close>: when \<open>print\<close> raises, the exception leaves the method and the assignment
  \<open>self.logs = ""\<close> is not reached. \<open>flush_line\<close> is the argument of that \<open>print\<close>.
\<close>

definition flush_base_length ::
    "('f \<Rightarrow> string) \<Rightarrow> 'f TradingState \<Rightarrow> (symbol \<times> Order list) list \<Rightarrow> int \<Rightarrow> int" where
  "flush_base_length float_repr state orders conversions =
     int (length (to_json float_repr
       (PList [PList (Logger_compress_state state ''''),
               PList (Logger_compress_orders orders),
               PInt conversions,
               PStr '''',
               PStr ''''])))"

definition flush_line ::
    "('f \<Rightarrow> string) \<Rightarrow> Logger \<Rightarrow> 'f TradingState \<Rightarrow> (symbol \<times> Order list) list \<Rightarrow> int \<Rightarrow> string
      \<Rightarrow> string" where
  "flush_line float_repr self state orders conversions trader_data =
     (let base_length = flush_base_length float_repr state orders conversions;
          max_item_length = (max_log_length self - base_length) div 3
      in to_json float_repr
           (PList [PList (Logger_compress_state state
                            (Logger_truncate (traderData state) max_item_length)),
                   PList (Logger_compress_orders orders),
                   PInt conversions,
                   PStr (Logger_truncate trader_data max_item_length),
                   PStr (Logger_truncate (logs self) max_item_length)]))"

definition Logger_flush ::
    "('f \<Rightarrow> string) \<Rightarrow> Logger \<Rightarrow> 'f TradingState \<Rightarrow> (symbol \<times> Order list) list \<Rightarrow> int \<Rightarrow> string
      \<Rightarrow> stdout \<Rightarrow> (py_error + unit) \<times> Logger \<times> stdout" where
  "Logger_flush float_repr self state orders conversions trader_data out =
     (case builtin_print (flush_line float_repr self state orders conversions trader_data) out of
        Inl e \<Rightarrow> (Inl e, self, out)
      | Inr out' \<Rightarrow> (Inr (), self\<lparr>logs := ''''\<rparr>, out'))"

subsection \<open>class Product and its subclasses\<close>

record Product =
  limit :: int
  position :: int
  id' :: string

definition Product_init :: "int \<Rightarrow> string \<Rightarrow> Product" where
  "Product_init limit0 id0 = \<lparr>limit = limit0, position = 0, id' = id0\<rparr>"

definition Product_update :: "Product \<Rightarrow> 'f TradingState \<Rightarrow> Product" where
  "Product_update self state =
     (case map_of (TradingState.position state) (id' self) of
        None \<Rightarrow> self\<lparr>position := 0\<rparr>
      | Some p \<Rightarrow> self\<lparr>position := p\<rparr>)"

definition Product_trade ::
    "Product \<Rightarrow> 'f TradingState \<Rightarrow> Logger \<Rightarrow> (py_error + Order list) \<times> Product \<times> Logger" where
  "Product_trade self state logger = (Inr [], self, logger)"

definition RainforestResin_init :: Product where
  "RainforestResin_init = Product_init 50 ''RAINFOREST_RESIN''"

text \<open>
  The first \<open>if\<close> block of \<open>RainforestResin.trade\<close> (the sell side of the book): the
  orders and the logger after it.
\<close>

definition take_best_ask ::
    "Product \<Rightarrow> OrderDepth \<Rightarrow> int \<Rightarrow> Order list \<Rightarrow> Logger \<Rightarrow> (py_error + Order list) \<times> Logger" where
  "take_best_ask self order_depth fair_price orders logger =
     (if length (sell_orders order_depth) \<noteq> 0 then
        (case py_min (map fst (sell_orders order_depth)) of
           Inl e \<Rightarrow> (Inl e, logger)
         | Inr best_ask \<Rightarrow>
            (case dict_getitem (sell_orders order_depth) best_ask of
               Inl e \<Rightarrow> (Inl e, logger)
             | Inr v \<Rightarrow>
                (let best_ask_volume = -1 * v in
                 if best_ask < fair_price then
                   (let quantity' = min best_ask_volume (limit self - position self) in
                    (Inr (orders @
                       [\<lparr>Order.symbol = id' self, price = best_ask, quantity = quantity'\<rparr>]),
                     Logger_print logger
                       [''Buying '' @ str_int quantity' @ '' '' @ id' self @ '' @ ''
                          @ str_int best_ask]))
                 else (Inr orders, logger))))
      else (Inr orders, logger))"

text \<open>The second \<open>if\<close> block (the buy side of the book).\<close>

definition take_best_bid ::
    "Product \<Rightarrow> OrderDepth \<Rightarrow> int \<Rightarrow> Order list \<Rightarrow> Logger \<Rightarrow> (py_error + Order list) \<times> Logger" where
  "take_best_bid self order_depth fair_price orders logger =
     (if length (buy_orders order_depth) \<noteq> 0 then
        (case py_max (map fst (buy_orders order_depth)) of
           Inl e \<Rightarrow> (Inl e, logger)
         | Inr best_bid \<Rightarrow>
            (case dict_getitem (buy_orders order_depth) best_bid of
               Inl e \<Rightarrow> (Inl e, logger)
             | Inr best_bid_volume \<Rightarrow>
                (if best_bid > fair_price then
                   (let quantity' = min best_bid_volume (limit self + position self) in
                    (Inr (orders @
                       [\<lparr>Order.symbol = id' self, price = best_bid, quantity = - quantity'\<rparr>]),
                     Logger_print logger
                       [''Selling '' @ str_int quantity' @ '' '' @ id' self @ '' @ ''
                          @ str_int best_bid]))
                 else (Inr orders, logger))))
      else (Inr orders, logger))"

definition RainforestResin_trade ::
    "Product \<Rightarrow> 'f TradingState \<Rightarrow> Logger \<Rightarrow> (py_error + Order list) \<times> Product \<times> Logger" where
  "RainforestResin_trade self0 state logger =
     (let self = Product_update self0 state;
          orders = [] in
      case dict_getitem (order_depths state) (id' self) of
        Inl e \<Rightarrow> (Inl e, self, logger)
      | Inr order_depth \<Rightarrow>
         (let fair_price = 10000 in
          case take_best_ask self order_depth fair_price orders logger of
            (Inl e, logger1) \<Rightarrow> (Inl e, self, logger1)
          | (Inr orders1, logger1) \<Rightarrow>
             (case take_best_bid self order_depth fair_price orders1 logger1 of
                (Inl e, logger2) \<Rightarrow> (Inl e, self, logger2)
              | (Inr orders2, logger2) \<Rightarrow> (Inr orders2, self, logger2))))"

definition Kelp_init :: Product where
  "Kelp_init = Product_init 50 ''KELP''"

definition Kelp_trade ::
    "Product \<Rightarrow> 'f TradingState \<Rightarrow> Logger \<Rightarrow> (py_error + Order list) \<times> Product \<times> Logger" where
  "Kelp_trade self0 state logger =
     (let self = Product_update self0 state;
          orders = [] in
      (Inr orders, self, logger))"

subsection \<open>class Trader\<close>

text \<open>
  An instance of one of the policy classes: its class, which selects the method
  \<open>trade\<close>, and its fields.
\<close>

datatype policy = BaseProduct Product | RainforestResin Product | Kelp Product

fun fields :: "policy \<Rightarrow> Product" where
  "fields (BaseProduct p) = p"
| "fields (RainforestResin p) = p"
| "fields (Kelp p) = p"

fun trade :: "policy \<Rightarrow> 'f TradingState \<Rightarrow> Logger \<Rightarrow> (py_error + Order list) \<times> policy \<times> Logger" where
  "trade (BaseProduct p) state logger =
     (case Product_trade p state logger of (r, p', logger') \<Rightarrow> (r, BaseProduct p', logger'))"
| "trade (RainforestResin p) state logger =
     (case RainforestResin_trade p state logger of (r, p', logger') \<Rightarrow> (r, RainforestResin p', logger'))"
| "trade (Kelp p) state logger =
     (case Kelp_trade p state logger of (r, p', logger') \<Rightarrow> (r, Kelp p', logger'))"

definition Trader_products :: "(symbol \<times> policy) list" where
  "Trader_products =
     [(''RAINFOREST_RESIN'', RainforestResin RainforestResin_init),
      (''KELP'', Kelp Kelp_init)]"

text \<open>
  The \<open>for\<close> loop of \<open>Trader.run\<close> over the keys of the order-depth mapping. The
  registry of policies, the result under construction and the logger are the loop's
  state; \<open>trade\<close> mutates the policy it is called on, which stays in the registry.
\<close>

fun run_loop ::
    "symbol list \<Rightarrow> 'f TradingState \<Rightarrow> (symbol \<times> policy) list \<Rightarrow> (symbol \<times> Order list) list \<Rightarrow> Logger
      \<Rightarrow> (py_error + unit) \<times> (symbol \<times> policy) list \<times> (symbol \<times> Order list) list \<times> Logger" where
  "run_loop [] state products result logger = (Inr (), products, result, logger)"
| "run_loop (product' # rest) state products result logger =
     (let logger1 = Logger_print logger [''Processing product: '' @ product'] in
      case map_of products product' of
        None \<Rightarrow> run_loop rest state products result logger1
      | Some pol \<Rightarrow>
         (case trade pol state logger1 of
            (Inl e, pol', logger2) \<Rightarrow>
              (Inl e, AList.update product' pol' products, result, logger2)
          | (Inr orders, pol', logger2) \<Rightarrow>
              run_loop rest state (AList.update product' pol' products)
                (AList.update product' orders result) logger2))"

definition Trader_run ::
    "('f \<Rightarrow> string) \<Rightarrow> (symbol \<times> policy) list \<Rightarrow> 'f TradingState \<Rightarrow> Logger \<Rightarrow> stdout
      \<Rightarrow> (py_error + (symbol \<times> Order list) list \<times> int \<times> string)
          \<times> (symbol \<times> policy) list \<times> Logger \<times> stdout" where
  "Trader_run float_repr products state logger out =
     (case run_loop (map fst (order_depths state)) state products [] logger of
        (Inl e, products', result, logger') \<Rightarrow> (Inl e, products', logger', out)
      | (Inr u, products', result, logger') \<Rightarrow>
         (let conversions = 1;
              trader_data = '''' in
          case Logger_flush float_repr logger' state result conversions trader_data out of
            (Inl e, logger'', out') \<Rightarrow> (Inl e, products', logger'', out')
          | (Inr u', logger'', out') \<Rightarrow>
              (Inr (result, conversions, trader_data), products', logger'', out')))"

subsection \<open>Notions the properties are stated with\<close>

text \<open>The lowest ask and the highest bid of a book (of a non-empty side).\<close>

definition lowest_ask :: "OrderDepth \<Rightarrow> int" where
  "lowest_ask order_depth = Min (set (map fst (sell_orders order_depth)))"

definition highest_bid :: "OrderDepth \<Rightarrow> int" where
  "highest_bid order_depth = Max (set (map fst (buy_orders order_depth)))"

text \<open>The quantities the book lists at these two prices.\<close>

definition lowest_ask_quantity :: "OrderDepth \<Rightarrow> int" where
  "lowest_ask_quantity order_depth =
     (case map_of (sell_orders order_depth) (lowest_ask order_depth) of None \<Rightarrow> 0 | Some v \<Rightarrow> v)"

definition highest_bid_quantity :: "OrderDepth \<Rightarrow> int" where
  "highest_bid_quantity order_depth =
     (case map_of (buy_orders order_depth) (highest_bid order_depth) of None \<Rightarrow> 0 | Some v \<Rightarrow> v)"

text \<open>
  The orders of the two blocks of \<open>RainforestResin.trade\<close> in closed form, for a policy
  whose position is refreshed and a book that is present (proved of the code below).
\<close>

definition ask_orders :: "Product \<Rightarrow> OrderDepth \<Rightarrow> Order list" where
  "ask_orders self order_depth =
     (if sell_orders order_depth \<noteq> [] \<and> lowest_ask order_depth < 10000
      then [\<lparr>Order.symbol = id' self, price = lowest_ask order_depth,
              quantity = min (- lowest_ask_quantity order_depth) (limit self - position self)\<rparr>]
      else [])"

definition bid_orders :: "Product \<Rightarrow> OrderDepth \<Rightarrow> Order list" where
  "bid_orders self order_depth =
     (if buy_orders order_depth \<noteq> [] \<and> 10000 < highest_bid order_depth
      then [\<lparr>Order.symbol = id' self, price = highest_bid order_depth,
              quantity = - min (highest_bid_quantity order_depth) (limit self + position self)\<rparr>]
      else [])"

text \<open>
  The sign convention of the books of a tick: every quantity of a sell side is at most
  0, every quantity of a buy side at least 0.
\<close>

definition book_signs_ok :: "'f TradingState \<Rightarrow> bool" where
  "book_signs_ok state =
     list_all (\<lambda>(s, order_depth).
         list_all (\<lambda>(p, q). q \<le> 0) (sell_orders order_depth) \<and>
         list_all (\<lambda>(p, q). 0 \<le> q) (buy_orders order_depth))
       (order_depths state)"

text \<open>
  The worst-case fills of a sequence of orders: the sum of its positive quantities (every
  buy order filled, no sell order) and the sum of its negative ones.
\<close>

definition buy_total :: "Order list \<Rightarrow> int" where
  "buy_total orders = sum_list (filter (\<lambda>q. 0 < q) (map Order.quantity orders))"

definition sell_total :: "Order list \<Rightarrow> int" where
  "sell_total orders = sum_list (filter (\<lambda>q. q < 0) (map Order.quantity orders))"

text \<open>Ticks without listings, trades and observations, for the scenarios below.\<close>

definition tick ::
    "(symbol \<times> OrderDepth) list \<Rightarrow> (string \<times> int) list \<Rightarrow> 'f TradingState" where
  "tick books positions =
     \<lparr>timestamp = 0, traderData = '''', listings = [], order_depths = books,
      own_trades = [], market_trades = [], TradingState.position = positions,
      observations = \<lparr>plainValueObservations = [], conversionObservations = []\<rparr>\<rparr>"

definition stdout_open :: stdout where
  "stdout_open = \<lparr>closed = False, written = []\<rparr>"

text \<open>
  Decompression of a compressed order book, as the spec's round-trip property words it:
  the reader of the logger's output rebuilds, per symbol, the two price-to-quantity
  mappings from the pair \<open>[buy_orders, sell_orders]\<close>. It fails (\<open>None\<close>) on a value of
  another shape.
\<close>

fun decompress_level :: "key \<times> 'f pyval \<Rightarrow> (int \<times> int) option" where
  "decompress_level (KInt p, PInt q) = Some (p, q)"
| "decompress_level _ = None"

fun decompress_side :: "'f pyval \<Rightarrow> (int \<times> int) list option" where
  "decompress_side (PDict kvs) = those (map decompress_level kvs)"
| "decompress_side _ = None"

fun decompress_book :: "symbol \<times> 'f pyval \<Rightarrow> (symbol \<times> OrderDepth) option" where
  "decompress_book (s, PList [b, a]) =
     (case (decompress_side b, decompress_side a) of
        (Some buys, Some sells) \<Rightarrow> Some (s, \<lparr>buy_orders = buys, sell_orders = sells\<rparr>)
      | _ \<Rightarrow> None)"
| "decompress_book _ = None"

definition decompress_order_depths ::
    "(symbol \<times> 'f pyval) list \<Rightarrow> (symbol \<times> OrderDepth) list option" where
  "decompress_order_depths compressed = those (map decompress_book compressed)"

text \<open>The rendering of floats for ticks that hold none.\<close>

definition no_floats :: "unit \<Rightarrow> string" where
  "no_floats x = ''''"

text \<open>
  The registry of \<open>Trader\<close> maps each symbol to a policy constructed with that symbol as
  its \<open>id\<close>; no method assigns \<open>id\<close>, so every registry a run can reach is of this kind.
\<close>

definition registry_ok :: "(symbol \<times> policy) list \<Rightarrow> bool" where
  "registry_ok products = list_all (\<lambda>(k, pol). id' (fields pol) = k) products"

text \<open>
  One invocation of a policy on a tick, started with an empty debug buffer: the orders
  it returns (none when it raises) and the debug text it records.
\<close>

definition decide :: "policy \<Rightarrow> 'f TradingState \<Rightarrow> Order list" where
  "decide pol state =
     (case fst (trade pol state Logger_init) of Inl e \<Rightarrow> [] | Inr orders \<Rightarrow> orders)"

definition trade_text :: "policy \<Rightarrow> 'f TradingState \<Rightarrow> string" where
  "trade_text pol state = logs (snd (snd (trade pol state Logger_init)))"



section \<open>Properties\<close>

subsection \<open>Truncation\<close>

lemma length_slice_to:
  "0 \<le> k \<Longrightarrow> k \<le> int (length xs) \<Longrightarrow> int (length (slice_to xs k)) = k"
  by (simp add: slice_to_def)

text \<open>
  C5, as the code has it. A string no longer than the share is returned unchanged,
  whatever the share. A string longer than a share of at least 3 units is cut to
  exactly the share and ends with the ellipsis marker.
\<close>

theorem Logger_truncate_share:
  "(3 \<le> max_length \<and> max_length < int (length val) \<longrightarrow>
        int (length (Logger_truncate val max_length)) = max_length \<and>
        ends_with (Logger_truncate val max_length) ''...'') \<and>
   (int (length val) \<le> max_length \<longrightarrow> Logger_truncate val max_length = val)"
proof (intro conjI impI)
  assume a: "3 \<le> max_length \<and> max_length < int (length val)"
  then have "int (length (slice_to val (max_length - 3))) = max_length - 3"
    by (intro length_slice_to) auto
  then show "int (length (Logger_truncate val max_length)) = max_length"
    using a by (simp add: Logger_truncate_def)
  show "ends_with (Logger_truncate val max_length) ''...''"
    using a by (simp add: Logger_truncate_def ends_with_def)
next
  assume "int (length val) \<le> max_length"
  then show "Logger_truncate val max_length = val"
    by (simp add: Logger_truncate_def)
qed

theorem Logger_truncate_share_witness:
  "(3::int) \<le> 5 \<and> 5 < int (length ''abcdefgh'') \<and>
   int (length (Logger_truncate ''abcdefgh'' 5)) = 5 \<and>
   ends_with (Logger_truncate ''abcdefgh'' 5) ''...'' \<and>
   Logger_truncate ''abcdefgh'' 5 = ''ab...'' \<and>
   int (length ''abc'') \<le> 5 \<and> Logger_truncate ''abc'' 5 = ''abc'' \<and>
   int (length ''ab'') \<le> 2 \<and> Logger_truncate ''ab'' 2 = ''ab'' \<and>
   int (length '''') \<le> 0 \<and> Logger_truncate '''' 0 = ''''"
  using Logger_truncate_share [of 5 "''abcdefgh''"] Logger_truncate_share [of 5 "''abc''"]
    Logger_truncate_share [of 2 "''ab''"] Logger_truncate_share [of 0 "''''"]
  by (simp add: Logger_truncate_def slice_to_def)

text \<open>
  C5 as stated fails for a share below 3: the slice bound \<open>max_length - 3\<close> is negative
  and counts from the end of the string, so a string of 6 characters cut to a share of 2
  comes back 8 characters long.
\<close>

theorem Logger_truncate_small_share_counterexample:
  "(2::int) < int (length ''abcdef'') \<and>
   Logger_truncate ''abcdef'' 2 = ''abcde...'' \<and>
   int (length (Logger_truncate ''abcdef'' 2)) \<noteq> 2"
  by (simp add: Logger_truncate_def slice_to_def)

subsection \<open>The two blocks of RainforestResin.trade\<close>

lemma py_min_eq: "xs \<noteq> [] \<Longrightarrow> py_min xs = Inr (Min (set xs))"
proof (cases xs)
  case (Cons a list)
  then show ?thesis using Min.set_eq_fold [of a list] by simp
qed simp

lemma py_max_eq: "xs \<noteq> [] \<Longrightarrow> py_max xs = Inr (Max (set xs))"
proof (cases xs)
  case (Cons a list)
  then show ?thesis using Max.set_eq_fold [of a list] by simp
qed simp

lemma map_of_key:
  "k \<in> set (map fst d) \<Longrightarrow> \<exists>v. map_of d k = Some v \<and> (k, v) \<in> set d"
proof -
  assume "k \<in> set (map fst d)"
  then obtain v where "map_of d k = Some v"
    by (metis map_of_eq_None_iff not_Some_eq set_map)
  then show ?thesis
    by (auto dest: map_of_SomeD)
qed

lemma lowest_ask_listed:
  assumes "sell_orders od \<noteq> []"
  shows "map_of (sell_orders od) (lowest_ask od) = Some (lowest_ask_quantity od)"
    and "(lowest_ask od, lowest_ask_quantity od) \<in> set (sell_orders od)"
proof -
  have "lowest_ask od \<in> set (map fst (sell_orders od))"
    unfolding lowest_ask_def using assms by (intro Min_in) auto
  from map_of_key [OF this]
  show "map_of (sell_orders od) (lowest_ask od) = Some (lowest_ask_quantity od)"
    and "(lowest_ask od, lowest_ask_quantity od) \<in> set (sell_orders od)"
    by (auto simp: lowest_ask_quantity_def)
qed

lemma highest_bid_listed:
  assumes "buy_orders od \<noteq> []"
  shows "map_of (buy_orders od) (highest_bid od) = Some (highest_bid_quantity od)"
    and "(highest_bid od, highest_bid_quantity od) \<in> set (buy_orders od)"
proof -
  have "highest_bid od \<in> set (map fst (buy_orders od))"
    unfolding highest_bid_def using assms by (intro Max_in) auto
  from map_of_key [OF this]
  show "map_of (buy_orders od) (highest_bid od) = Some (highest_bid_quantity od)"
    and "(highest_bid od, highest_bid_quantity od) \<in> set (buy_orders od)"
    by (auto simp: highest_bid_quantity_def)
qed

lemma take_best_ask_eq:
  "take_best_ask self od fp orders lg =
     (if sell_orders od \<noteq> [] \<and> lowest_ask od < fp then
        (Inr (orders @ [\<lparr>Order.symbol = id' self, price = lowest_ask od,
               quantity = min (- lowest_ask_quantity od) (limit self - Product.position self)\<rparr>]),
         Logger_print lg
           [''Buying '' @ str_int (min (- lowest_ask_quantity od) (limit self - Product.position self))
              @ '' '' @ id' self @ '' @ '' @ str_int (lowest_ask od)])
      else (Inr orders, lg))"
proof (cases "sell_orders od = []")
  case True
  then show ?thesis by (simp add: take_best_ask_def)
next
  case False
  have m: "py_min (map fst (sell_orders od)) = Inr (lowest_ask od)"
    using False by (simp add: py_min_eq lowest_ask_def)
  show ?thesis
    using False m lowest_ask_listed(1) [OF False]
    by (simp add: take_best_ask_def dict_getitem_def Let_def)
qed

lemma take_best_bid_eq:
  "take_best_bid self od fp orders lg =
     (if buy_orders od \<noteq> [] \<and> fp < highest_bid od then
        (Inr (orders @ [\<lparr>Order.symbol = id' self, price = highest_bid od,
               quantity = - min (highest_bid_quantity od) (limit self + Product.position self)\<rparr>]),
         Logger_print lg
           [''Selling '' @ str_int (min (highest_bid_quantity od) (limit self + Product.position self))
              @ '' '' @ id' self @ '' @ '' @ str_int (highest_bid od)])
      else (Inr orders, lg))"
proof (cases "buy_orders od = []")
  case True
  then show ?thesis by (simp add: take_best_bid_def)
next
  case False
  have m: "py_max (map fst (buy_orders od)) = Inr (highest_bid od)"
    using False by (simp add: py_max_eq highest_bid_def)
  show ?thesis
    using False m highest_bid_listed(1) [OF False]
    by (simp add: take_best_bid_def dict_getitem_def Let_def)
qed

subsection \<open>RainforestResin.trade\<close>

lemma Product_update_fields:
  "id' (Product_update self0 state) = id' self0"
  "limit (Product_update self0 state) = limit self0"
  by (simp_all add: Product_update_def split: option.splits)

lemma RainforestResin_trade_absent:
  "map_of (order_depths state) (id' self0) = None \<Longrightarrow>
   RainforestResin_trade self0 state lg = (Inl KeyError, Product_update self0 state, lg)"
  by (simp add: RainforestResin_trade_def dict_getitem_def Product_update_fields)

lemma RainforestResin_trade_present:
  assumes book: "map_of (order_depths state) (id' self0) = Some od"
  shows "\<exists>lg'. RainforestResin_trade self0 state lg =
     (Inr (ask_orders (Product_update self0 state) od @ bid_orders (Product_update self0 state) od),
      Product_update self0 state, lg')"
  using book
  by (simp add: RainforestResin_trade_def dict_getitem_def Product_update_fields Let_def
      take_best_ask_eq take_best_bid_eq ask_orders_def bid_orders_def)

lemma RainforestResin_trade_returns:
  assumes "fst (RainforestResin_trade self0 state lg) = Inr orders"
  shows "\<exists>od. map_of (order_depths state) (id' self0) = Some od \<and>
     orders = ask_orders (Product_update self0 state) od @ bid_orders (Product_update self0 state) od"
proof (cases "map_of (order_depths state) (id' self0)")
  case None
  then show ?thesis using assms by (simp add: RainforestResin_trade_absent)
next
  case (Some od)
  from RainforestResin_trade_present [OF Some, of lg] assms
  show ?thesis using Some by auto
qed

lemma book_signs:
  assumes signs: "book_signs_ok state" and book: "map_of (order_depths state) k = Some od"
  shows "sell_orders od = [] \<or> lowest_ask_quantity od \<le> 0"
    and "buy_orders od = [] \<or> 0 \<le> highest_bid_quantity od"
proof -
  have "(k, od) \<in> set (order_depths state)"
    using book by (rule map_of_SomeD)
  with signs have s: "\<forall>(p, q) \<in> set (sell_orders od). q \<le> 0"
    and b: "\<forall>(p, q) \<in> set (buy_orders od). 0 \<le> q"
    by (auto simp: book_signs_ok_def list_all_iff)
  show "sell_orders od = [] \<or> lowest_ask_quantity od \<le> 0"
    using s lowest_ask_listed(2) [of od] by auto
  show "buy_orders od = [] \<or> 0 \<le> highest_bid_quantity od"
    using b highest_bid_listed(2) [of od] by auto
qed

lemma ask_orders_total:
  assumes "sell_orders od = [] \<or> lowest_ask_quantity od \<le> 0"
    and "Product.position self \<le> limit self"
  shows "buy_total (ask_orders self od) \<le> limit self - Product.position self"
    and "sell_total (ask_orders self od) = 0"
  using assms by (auto simp: ask_orders_def buy_total_def sell_total_def min_def)

lemma bid_orders_total:
  assumes "buy_orders od = [] \<or> 0 \<le> highest_bid_quantity od"
    and "- limit self \<le> Product.position self"
  shows "- (limit self + Product.position self) \<le> sell_total (bid_orders self od)"
    and "buy_total (bid_orders self od) = 0"
  using assms by (auto simp: bid_orders_def buy_total_def sell_total_def min_def)

lemma totals_append:
  "buy_total (xs @ ys) = buy_total xs + buy_total ys"
  "sell_total (xs @ ys) = sell_total xs + sell_total ys"
  by (simp_all add: buy_total_def sell_total_def)

text \<open>
  C1. Whenever \<open>RainforestResin.trade\<close> returns orders, the position it refreshed from the
  tick lies within the limit and the books keep the sign convention: the position plus
  all buy quantities is at most the limit, and the position plus all sell quantities is
  at least minus the limit.
\<close>

theorem RainforestResin_trade_within_limit:
  assumes ret: "fst (RainforestResin_trade self0 state logger) = Inr orders"
    and lo: "- limit self0 \<le> Product.position (Product_update self0 state)"
    and hi: "Product.position (Product_update self0 state) \<le> limit self0"
    and signs: "book_signs_ok state"
  shows "Product.position (Product_update self0 state) + buy_total orders \<le> limit self0 \<and>
         - limit self0 \<le> Product.position (Product_update self0 state) + sell_total orders"
proof -
  define self where "self = Product_update self0 state"
  have lim: "limit self0 = limit self"
    by (simp add: self_def Product_update_fields)
  have lo': "- limit self \<le> Product.position self" and hi': "Product.position self \<le> limit self"
    using lo hi by (simp_all add: self_def Product_update_fields)
  from RainforestResin_trade_returns [OF ret]
  obtain od where book: "map_of (order_depths state) (id' self0) = Some od"
    and orders: "orders = ask_orders self od @ bid_orders self od"
    by (auto simp: self_def)
  note q = book_signs [OF signs book]
  note a = ask_orders_total [OF q(1) hi']
  note b = bid_orders_total [OF q(2) lo']
  have "Product.position self + buy_total orders \<le> limit self"
    using a b by (simp add: orders totals_append)
  moreover have "- limit self \<le> Product.position self + sell_total orders"
    using a b by (simp add: orders totals_append)
  ultimately show ?thesis
    unfolding lim self_def by simp
qed

theorem RainforestResin_trade_within_limit_witness:
  "fst (RainforestResin_trade RainforestResin_init
      (tick [(''RAINFOREST_RESIN'', \<lparr>buy_orders = [(10002, 8)], sell_orders = [(9998, -10), (9999, -3)]\<rparr>)]
            [(''RAINFOREST_RESIN'', 48)]) Logger_init)
     = Inr [\<lparr>Order.symbol = ''RAINFOREST_RESIN'', price = 9998, quantity = 2\<rparr>,
            \<lparr>Order.symbol = ''RAINFOREST_RESIN'', price = 10002, quantity = - 8\<rparr>] \<and>
   book_signs_ok (tick [(''RAINFOREST_RESIN'', \<lparr>buy_orders = [(10002, 8)], sell_orders = [(9998, -10), (9999, -3)]\<rparr>)]
            [(''RAINFOREST_RESIN'', 48)]) \<and>
   (48::int) + buy_total [\<lparr>Order.symbol = ''RAINFOREST_RESIN'', price = 9998, quantity = 2\<rparr>,
            \<lparr>Order.symbol = ''RAINFOREST_RESIN'', price = 10002, quantity = - 8\<rparr>] \<le> 50 \<and>
   - (50::int) \<le> 48 + sell_total [\<lparr>Order.symbol = ''RAINFOREST_RESIN'', price = 9998, quantity = 2\<rparr>,
            \<lparr>Order.symbol = ''RAINFOREST_RESIN'', price = 10002, quantity = - 8\<rparr>]"
proof -
  let ?st = "tick [(''RAINFOREST_RESIN'', \<lparr>buy_orders = [(10002, 8)], sell_orders = [(9998, -10), (9999, -3)]\<rparr>)]
            [(''RAINFOREST_RESIN'', 48)]"
  let ?os = "[\<lparr>Order.symbol = ''RAINFOREST_RESIN'', price = 9998, quantity = 2\<rparr>,
            \<lparr>Order.symbol = ''RAINFOREST_RESIN'', price = 10002, quantity = - 8\<rparr>]"
  have ret: "fst (RainforestResin_trade RainforestResin_init ?st Logger_init) = Inr ?os"
    by (simp add: RainforestResin_trade_def RainforestResin_init_def Product_init_def
        Product_update_def tick_def dict_getitem_def take_best_ask_def take_best_bid_def)
  have signs: "book_signs_ok ?st"
    by (simp add: book_signs_ok_def tick_def)
  have pos: "Product.position (Product_update RainforestResin_init ?st) = 48"
    "limit RainforestResin_init = 50"
    by (simp_all add: Product_update_def RainforestResin_init_def Product_init_def tick_def)
  from RainforestResin_trade_within_limit [OF ret _ _ signs] ret signs
  show ?thesis by (simp add: pos)
qed




text \<open>
  C4, as the code has it. \<open>RainforestResin.trade\<close> indexes the order-depth mapping with
  its own symbol: when the mapping has no entry for it the call raises KeyError, and it
  returns a sequence of orders when the entry is present. (\<open>Trader.run\<close> calls it for
  keys of the mapping only.)
\<close>

theorem RainforestResin_trade_book_absent:
  "(map_of (order_depths state) (id' self0) = None \<longrightarrow>
      fst (RainforestResin_trade self0 state logger) = Inl KeyError) \<and>
   (map_of (order_depths state) (id' self0) \<noteq> None \<longrightarrow>
      (\<exists>orders. fst (RainforestResin_trade self0 state logger) = Inr orders))"
proof (intro conjI impI)
  assume "map_of (order_depths state) (id' self0) = None"
  then show "fst (RainforestResin_trade self0 state logger) = Inl KeyError"
    by (simp add: RainforestResin_trade_absent)
next
  assume "map_of (order_depths state) (id' self0) \<noteq> None"
  then obtain od where "map_of (order_depths state) (id' self0) = Some od" by auto
  from RainforestResin_trade_present [OF this, of logger]
  show "\<exists>orders. fst (RainforestResin_trade self0 state logger) = Inr orders" by auto
qed

theorem RainforestResin_trade_book_absent_witness:
  "map_of (order_depths (tick [] [])) (id' RainforestResin_init) = None \<and>
   fst (RainforestResin_trade RainforestResin_init (tick [] []) Logger_init) = Inl KeyError \<and>
   map_of (order_depths (tick [(''RAINFOREST_RESIN'', \<lparr>buy_orders = [], sell_orders = []\<rparr>)] []))
     (id' RainforestResin_init) \<noteq> None \<and>
   (\<exists>orders. fst (RainforestResin_trade RainforestResin_init
       (tick [(''RAINFOREST_RESIN'', \<lparr>buy_orders = [], sell_orders = []\<rparr>)] []) Logger_init)
       = Inr orders)"
  using RainforestResin_trade_book_absent [of "tick [] []" RainforestResin_init Logger_init]
    RainforestResin_trade_book_absent
      [of "tick [(''RAINFOREST_RESIN'', \<lparr>buy_orders = [], sell_orders = []\<rparr>)] []"
          RainforestResin_init Logger_init]
  by (simp add: tick_def RainforestResin_init_def Product_init_def)

text \<open>
  C4 as stated fails: on a tick whose order-depth mapping is empty the call raises
  KeyError and returns no sequence, empty or not.
\<close>

theorem RainforestResin_trade_book_absent_counterexample:
  "map_of (order_depths (tick [] [])) (id' RainforestResin_init) = None \<and>
   fst (RainforestResin_trade RainforestResin_init (tick [] []) Logger_init) = Inl KeyError \<and>
   fst (RainforestResin_trade RainforestResin_init (tick [] []) Logger_init) \<noteq> Inr []"
  by (simp add: RainforestResin_trade_def RainforestResin_init_def Product_init_def
      Product_update_def tick_def dict_getitem_def)

text \<open>
  C9. On a tick where the lowest ask of RAINFOREST_RESIN is 9998 with quantity -10 and
  the position is 48, the policy with limit 50 proposes, first, a buy order at 9998 for
  \<open>min 10 (50 - 48) = 2\<close>.
\<close>

theorem RainforestResin_trade_scenario:
  assumes book: "map_of (order_depths state) ''RAINFOREST_RESIN'' = Some od"
    and asks: "sell_orders od \<noteq> []"
    and best: "lowest_ask od = 9998"
    and size: "map_of (sell_orders od) 9998 = Some (- 10)"
    and pos: "map_of (TradingState.position state) ''RAINFOREST_RESIN'' = Some 48"
    and lim: "limit self0 = 50"
    and ident: "id' self0 = ''RAINFOREST_RESIN''"
  shows "\<exists>rest. fst (RainforestResin_trade self0 state logger) =
     Inr (\<lparr>Order.symbol = ''RAINFOREST_RESIN'', price = 9998, quantity = 2\<rparr> # rest)"
proof -
  define self where "self = Product_update self0 state"
  have flds: "id' self = ''RAINFOREST_RESIN''" "limit self = 50" "Product.position self = 48"
    using pos lim ident by (simp_all add: self_def Product_update_def)
  have q: "lowest_ask_quantity od = - 10"
    using size best by (simp add: lowest_ask_quantity_def)
  have a: "ask_orders self od =
      [\<lparr>Order.symbol = ''RAINFOREST_RESIN'', price = 9998, quantity = 2\<rparr>]"
    using asks best q flds by (simp add: ask_orders_def)
  from book have "map_of (order_depths state) (id' self0) = Some od"
    by (simp add: ident)
  from RainforestResin_trade_present [OF this, of logger]
  show ?thesis by (auto simp: self_def [symmetric] a)
qed

theorem RainforestResin_trade_scenario_witness:
  "map_of (order_depths (tick [(''RAINFOREST_RESIN'', \<lparr>buy_orders = [], sell_orders = [(9998, -10)]\<rparr>)]
            [(''RAINFOREST_RESIN'', 48)])) ''RAINFOREST_RESIN''
     = Some \<lparr>buy_orders = [], sell_orders = [(9998, -10)]\<rparr> \<and>
   lowest_ask \<lparr>buy_orders = [], sell_orders = [(9998, -10)]\<rparr> = 9998 \<and>
   limit RainforestResin_init = 50 \<and>
   (\<exists>rest. fst (RainforestResin_trade RainforestResin_init
        (tick [(''RAINFOREST_RESIN'', \<lparr>buy_orders = [], sell_orders = [(9998, -10)]\<rparr>)]
            [(''RAINFOREST_RESIN'', 48)]) Logger_init) =
     Inr (\<lparr>Order.symbol = ''RAINFOREST_RESIN'', price = 9998, quantity = 2\<rparr> # rest))"
proof -
  let ?od = "\<lparr>buy_orders = [], sell_orders = [(9998, -10)]\<rparr>"
  let ?st = "tick [(''RAINFOREST_RESIN'', ?od)] [(''RAINFOREST_RESIN'', 48)]"
  have book: "map_of (order_depths ?st) ''RAINFOREST_RESIN'' = Some ?od"
    by (simp add: tick_def)
  have asks: "sell_orders ?od \<noteq> []" and best: "lowest_ask ?od = 9998"
    and size: "map_of (sell_orders ?od) 9998 = Some (- 10)"
    by (simp_all add: lowest_ask_def)
  have pos: "map_of (TradingState.position ?st) ''RAINFOREST_RESIN'' = Some 48"
    by (simp add: tick_def)
  have lim: "limit RainforestResin_init = 50" and ident: "id' RainforestResin_init = ''RAINFOREST_RESIN''"
    by (simp_all add: RainforestResin_init_def Product_init_def)
  from RainforestResin_trade_scenario [OF book asks best size pos lim ident, of Logger_init]
    book best lim
  show ?thesis by simp
qed

subsection \<open>Compression of order books\<close>

lemma update_fresh: "k \<notin> fst ` set al \<Longrightarrow> AList.update k v al = al @ [(k, v)]"
  by (induction al) auto

lemma foldl_update_distinct:
  "distinct (map fst xs) \<Longrightarrow> fst ` set acc \<inter> fst ` set xs = {} \<Longrightarrow>
   foldl (\<lambda>acc (k, v). AList.update k (f v) acc) acc xs = acc @ map (\<lambda>(k, v). (k, f v)) xs"
proof (induction xs arbitrary: acc)
  case Nil
  then show ?case by simp
next
  case (Cons x xs)
  obtain k v where x: "x = (k, v)" by (cases x)
  have fresh: "k \<notin> fst ` set acc"
    using Cons.prems(2) by (auto simp: x)
  have "fst ` set (acc @ [(k, v')]) \<inter> fst ` set xs = {}" for v'
    using Cons.prems by (auto simp: x)
  then show ?case
    using Cons.prems(1) Cons.IH [of "acc @ [(k, f v)]"]
    by (simp add: x update_fresh [OF fresh])
qed

lemma Logger_compress_order_depths_distinct:
  "distinct (map fst ods) \<Longrightarrow>
   Logger_compress_order_depths ods =
     map (\<lambda>(s, od). (s, PList [pdict_int (buy_orders od), pdict_int (sell_orders od)])) ods"
  unfolding Logger_compress_order_depths_def
  using foldl_update_distinct
    [of ods "[]" "\<lambda>od. PList [pdict_int (buy_orders od), pdict_int (sell_orders od)]"]
  by simp

lemma those_map_Some: "(\<And>x. x \<in> set xs \<Longrightarrow> f x = Some (g x)) \<Longrightarrow> those (map f xs) = Some (map g xs)"
  by (induction xs) auto

lemma decompress_side_pdict_int: "decompress_side (pdict_int d) = Some d"
proof -
  have "those (map decompress_level (map (\<lambda>(k, v). (KInt k, PInt v)) d)) = Some (map id d)"
    unfolding map_map by (rule those_map_Some) auto
  then show ?thesis by (simp add: pdict_int_def)
qed

text \<open>
  C7. Decompressing the output of \<open>Logger.compress_order_depths\<close> gives back the
  order-depth mapping it was given: every symbol, in order, with its buy-side and its
  sell-side price-to-quantity mapping. (A mapping is a dict: its keys are distinct.)
\<close>

theorem Logger_compress_order_depths_lossless:
  assumes "distinct (map fst ods)"
  shows "decompress_order_depths (Logger_compress_order_depths ods) = Some ods"
proof -
  have "those (map decompress_book
      (map (\<lambda>(s, od). (s, PList [pdict_int (buy_orders od), pdict_int (sell_orders od)])) ods))
      = Some (map id ods)"
    unfolding map_map by (rule those_map_Some) (auto simp: decompress_side_pdict_int)
  then show ?thesis
    using assms by (simp add: decompress_order_depths_def Logger_compress_order_depths_distinct)
qed

theorem Logger_compress_order_depths_lossless_witness:
  "distinct (map fst
     [(''RAINFOREST_RESIN'', \<lparr>buy_orders = [(10002, 8)], sell_orders = [(9998, -10), (9999, -3)]\<rparr>),
      (''KELP'', \<lparr>buy_orders = [], sell_orders = [(2030, -1)]\<rparr>)]) \<and>
   decompress_order_depths (Logger_compress_order_depths
     [(''RAINFOREST_RESIN'', \<lparr>buy_orders = [(10002, 8)], sell_orders = [(9998, -10), (9999, -3)]\<rparr>),
      (''KELP'', \<lparr>buy_orders = [], sell_orders = [(2030, -1)]\<rparr>)]) =
   Some
     [(''RAINFOREST_RESIN'', \<lparr>buy_orders = [(10002, 8)], sell_orders = [(9998, -10), (9999, -3)]\<rparr>),
      (''KELP'', \<lparr>buy_orders = [], sell_orders = [(2030, -1)]\<rparr>)]"
  using Logger_compress_order_depths_lossless
    [of "[(''RAINFOREST_RESIN'', \<lparr>buy_orders = [(10002, 8)], sell_orders = [(9998, -10), (9999, -3)]\<rparr>),
      (''KELP'', \<lparr>buy_orders = [], sell_orders = [(2030, -1)]\<rparr>)]"]
  by simp

subsection \<open>Logger.flush: the debug buffer\<close>

lemma Logger_flush_open:
  "\<not> closed out \<Longrightarrow>
   Logger_flush float_repr self state orders conversions trader_data out =
     (Inr (), self\<lparr>logs := ''''\<rparr>,
      out\<lparr>written := written out @
        [flush_line float_repr self state orders conversions trader_data @ [CHR 0x0A]]\<rparr>)"
  by (simp add: Logger_flush_def builtin_print_def)

lemma Logger_flush_closed:
  "closed out \<Longrightarrow>
   Logger_flush float_repr self state orders conversions trader_data out = (Inl ValueError, self, out)"
  by (simp add: Logger_flush_def builtin_print_def)

text \<open>
  C6, as the code has it. A call of \<open>Logger.flush\<close> that returns leaves the debug buffer
  empty. The reset is the last statement, after the \<open>print\<close>: when the emission raises
  (the standard output is closed), the exception leaves the method and the logger is as
  it was before the call.
\<close>

theorem Logger_flush_resets_buffer:
  "(\<not> closed out \<longrightarrow>
      fst (Logger_flush float_repr self state orders conversions trader_data out) = Inr () \<and>
      logs (fst (snd (Logger_flush float_repr self state orders conversions trader_data out))) = '''') \<and>
   (closed out \<longrightarrow>
      fst (Logger_flush float_repr self state orders conversions trader_data out) = Inl ValueError \<and>
      fst (snd (Logger_flush float_repr self state orders conversions trader_data out)) = self)"
  by (simp add: Logger_flush_open Logger_flush_closed)

theorem Logger_flush_resets_buffer_witness:
  "\<not> closed stdout_open \<and>
   fst (Logger_flush no_floats (Logger_print Logger_init [''x'']) (tick [] []) [] 1 '''' stdout_open)
     = Inr () \<and>
   logs (fst (snd (Logger_flush no_floats (Logger_print Logger_init [''x'']) (tick [] []) [] 1 ''''
     stdout_open))) = '''' \<and>
   closed (stdout_open\<lparr>closed := True\<rparr>) \<and>
   fst (Logger_flush no_floats (Logger_print Logger_init [''x'']) (tick [] []) [] 1 ''''
     (stdout_open\<lparr>closed := True\<rparr>)) = Inl ValueError"
  using Logger_flush_resets_buffer
    [of stdout_open no_floats "Logger_print Logger_init [''x'']" "tick [] []" "[]" 1 "''''"]
    Logger_flush_resets_buffer
    [of "stdout_open\<lparr>closed := True\<rparr>" no_floats "Logger_print Logger_init [''x'']" "tick [] []"
        "[]" 1 "''''"]
  by (simp add: stdout_open_def)

text \<open>
  C6 as stated fails: when the emission fails, the buffer keeps its text. With the
  line \<open>x\<close> recorded and the standard output closed, \<open>flush\<close> raises ValueError and the
  buffer still holds \<open>x\<close> and its newline.
\<close>

theorem Logger_flush_emission_fails_counterexample:
  "fst (Logger_flush no_floats (Logger_print Logger_init [''x'']) (tick [] []) [] 1 ''''
     (stdout_open\<lparr>closed := True\<rparr>)) = Inl ValueError \<and>
   logs (fst (snd (Logger_flush no_floats (Logger_print Logger_init [''x'']) (tick [] []) [] 1 ''''
     (stdout_open\<lparr>closed := True\<rparr>)))) = [CHR ''x'', CHR 0x0A] \<and>
   logs (fst (snd (Logger_flush no_floats (Logger_print Logger_init [''x'']) (tick [] []) [] 1 ''''
     (stdout_open\<lparr>closed := True\<rparr>)))) \<noteq> ''''"
  by (simp add: Logger_flush_def builtin_print_def stdout_open_def Logger_print_def Logger_init_def)

subsection \<open>Logger.flush: the length of the line\<close>

lemma length_json_string: "length (json_string s) = 2 + length (concat (map escape_char s))"
  by (simp add: json_string_def)

text \<open>
  The length of the line is the baseline length plus the lengths of the three
  free-text fields as the encoder writes them, after truncation.
\<close>

lemma flush_line_length:
  "int (length (flush_line float_repr self state orders conversions trader_data)) =
     flush_base_length float_repr state orders conversions
     + int (length (concat (map escape_char (Logger_truncate (traderData state)
         ((max_log_length self - flush_base_length float_repr state orders conversions) div 3)))))
     + int (length (concat (map escape_char (Logger_truncate trader_data
         ((max_log_length self - flush_base_length float_repr state orders conversions) div 3)))))
     + int (length (concat (map escape_char (Logger_truncate (logs self)
         ((max_log_length self - flush_base_length float_repr state orders conversions) div 3)))))"
  by (simp add: flush_line_def flush_base_length_def Logger_compress_state_def Let_def
      length_json_string)

lemma length_concat_replicate: "length (concat (replicate n xs)) = n * length xs"
  by (induction n) simp_all

lemma base_empty: "flush_base_length no_floats (tick [] []) [] 1 = 42"
  by (simp add: flush_base_length_def tick_def Logger_compress_state_def Logger_compress_listings_def
      Logger_compress_order_depths_def Logger_compress_trades_def Logger_compress_observations_def
      Logger_compress_orders_def pdict_str_def str_int_def digits.simps length_json_string)

lemma base_key: "flush_base_length no_floats (tick [] [(replicate n CHR ''A'', 0)]) [] 1 = 46 + int n"
  by (simp add: flush_base_length_def tick_def Logger_compress_state_def Logger_compress_listings_def
      Logger_compress_order_depths_def Logger_compress_trades_def Logger_compress_observations_def
      Logger_compress_orders_def pdict_str_def str_int_def digits.simps length_json_string
      json_key_def length_concat_replicate escape_char_def)

lemma tick_fields:
  "traderData (tick books positions) = []"
  "order_depths (tick books positions) = books"
  "TradingState.position (tick books positions) = positions"
  by (simp_all add: tick_def)

text \<open>
  C2. The code breaks the bound the claim states and its own comment announces (the
  three fields are truncated "to fit the log limit"). The shares are measured with
  \<open>len\<close> before the encoder escapes the fields: after \<open>logger.print\<close> of 700 characters
  \<open>e-acute\<close>, the 701 characters of debug text fit the share of 1236 and are written as
  4202, so the line printed for the empty tick is 4244 long, above the budget of 3750.
  A share below 3 overflows too: with a baseline of 3746 the share is 1, and the 8
  characters recorded by \<open>logger.print("abcdefg")\<close> are cut to 9, a line of 3755. With a
  baseline above the budget (3846) nothing is dropped from the structure, and each of
  the three empty fields becomes the ellipsis marker: a line of 3855.
\<close>

theorem Logger_flush_line_overflow:
  "max_log_length Logger_init = 3750 \<and>
   logs (Logger_print Logger_init [replicate 700 (CHR 0xE9)]) = replicate 700 (CHR 0xE9) @ [CHR 0x0A] \<and>
   written (snd (snd (Logger_flush no_floats (Logger_print Logger_init [replicate 700 (CHR 0xE9)])
       (tick [] []) [] 1 '''' stdout_open))) =
     [flush_line no_floats (Logger_print Logger_init [replicate 700 (CHR 0xE9)]) (tick [] []) [] 1 ''''
        @ [CHR 0x0A]] \<and>
   int (length (flush_line no_floats (Logger_print Logger_init [replicate 700 (CHR 0xE9)])
       (tick [] []) [] 1 '''')) = 4244 \<and>
   int (length (flush_line no_floats (Logger_print Logger_init [''abcdefg''])
       (tick [] [(replicate 3700 CHR ''A'', 0)]) [] 1 '''')) = 3755 \<and>
   int (length (flush_line no_floats Logger_init
       (tick [] [(replicate 3800 CHR ''A'', 0)]) [] 1 '''')) = 3855"
proof (intro conjI)
  show "max_log_length Logger_init = 3750"
    by (simp add: Logger_init_def)
  show "logs (Logger_print Logger_init [replicate 700 (CHR 0xE9)]) = replicate 700 (CHR 0xE9) @ [CHR 0x0A]"
    by (simp add: Logger_print_def Logger_init_def)
  show "written (snd (snd (Logger_flush no_floats (Logger_print Logger_init [replicate 700 (CHR 0xE9)])
       (tick [] []) [] 1 '''' stdout_open))) =
     [flush_line no_floats (Logger_print Logger_init [replicate 700 (CHR 0xE9)]) (tick [] []) [] 1 ''''
        @ [CHR 0x0A]]"
    by (simp add: Logger_flush_def builtin_print_def stdout_open_def)
  show "int (length (flush_line no_floats (Logger_print Logger_init [replicate 700 (CHR 0xE9)])
       (tick [] []) [] 1 '''')) = 4244"
    by (simp add: flush_line_length base_empty Logger_print_def Logger_init_def Logger_truncate_def
        length_concat_replicate escape_char_def hex4_def tick_fields)
  show "int (length (flush_line no_floats (Logger_print Logger_init [''abcdefg''])
       (tick [] [(replicate 3700 CHR ''A'', 0)]) [] 1 '''')) = 3755"
    by (simp add: flush_line_length base_key Logger_print_def Logger_init_def Logger_truncate_def
        slice_to_def escape_char_def tick_fields)
  show "int (length (flush_line no_floats Logger_init
       (tick [] [(replicate 3800 CHR ''A'', 0)]) [] 1 '''')) = 3855"
    by (simp add: flush_line_length base_key Logger_init_def Logger_truncate_def slice_to_def
        escape_char_def tick_fields)
qed

subsection \<open>Trader.run\<close>

lemma Logger_print_logs:
  "Logger_print lg xs = lg\<lparr>logs := logs lg @ join '' '' xs @ [CHR 0x0A]\<rparr>"
  by (simp add: Logger_print_def)

lemma logs_append_nil: "lg\<lparr>logs := logs lg @ []\<rparr> = (lg :: Logger)"
  by simp

text \<open>The debug buffer a call starts with only prefixes the text the call records.\<close>

lemma RainforestResin_trade_logger:
  "RainforestResin_trade p state lg =
     (fst (RainforestResin_trade p state Logger_init),
      fst (snd (RainforestResin_trade p state Logger_init)),
      lg\<lparr>logs := logs lg @ logs (snd (snd (RainforestResin_trade p state Logger_init)))\<rparr>)"
  by (simp add: RainforestResin_trade_def dict_getitem_def Let_def take_best_ask_eq take_best_bid_eq
      Logger_print_logs Logger_init_def split: option.splits)

lemma trade_logger:
  "trade pol state lg =
     (fst (trade pol state Logger_init), fst (snd (trade pol state Logger_init)),
      lg\<lparr>logs := logs lg @ trade_text pol state\<rparr>)"
proof (cases pol)
  case (BaseProduct p)
  then show ?thesis by (simp add: trade_text_def Product_trade_def Logger_init_def)
next
  case (RainforestResin p)
  then show ?thesis
    using RainforestResin_trade_logger [of p state lg]
    by (simp add: trade_text_def split: prod.splits)
next
  case (Kelp p)
  then show ?thesis by (simp add: trade_text_def Kelp_trade_def Logger_init_def)
qed

lemma trade_fields:
  "id' (fields (fst (snd (trade pol state lg)))) = id' (fields pol)"
proof (cases pol)
  case (BaseProduct p)
  then show ?thesis by (simp add: Product_trade_def)
next
  case (RainforestResin p)
  then show ?thesis
  proof (cases "map_of (order_depths state) (id' p)")
    case None
    then show ?thesis
      using RainforestResin by (simp add: RainforestResin_trade_absent Product_update_fields)
  next
    case (Some od)
    from RainforestResin_trade_present [OF Some, of lg]
    show ?thesis using RainforestResin by (auto simp: Product_update_fields)
  qed
next
  case (Kelp p)
  then show ?thesis by (simp add: Kelp_trade_def Product_update_fields)
qed

lemma trade_returns:
  assumes "map_of (order_depths state) (id' (fields pol)) \<noteq> None"
  shows "fst (trade pol state lg) = Inr (decide pol state)"
proof -
  have "\<exists>orders. fst (trade pol state lg') = Inr orders" for lg'
  proof (cases pol)
    case (BaseProduct p)
    then show ?thesis by (simp add: Product_trade_def)
  next
    case (RainforestResin p)
    with assms obtain od where "map_of (order_depths state) (id' p) = Some od" by auto
    from RainforestResin_trade_present [OF this, of lg']
    show ?thesis using RainforestResin by auto
  next
    case (Kelp p)
    then show ?thesis by (simp add: Kelp_trade_def)
  qed
  then obtain orders where o: "fst (trade pol state Logger_init) = Inr orders" by blast
  then have "decide pol state = orders" by (simp add: decide_def)
  moreover have "fst (trade pol state lg) = fst (trade pol state Logger_init)"
    by (subst trade_logger) simp
  ultimately show ?thesis using o by simp
qed

lemma registry_ok_lookup:
  "registry_ok products \<Longrightarrow> map_of products k = Some pol \<Longrightarrow> id' (fields pol) = k"
  by (auto simp: registry_ok_def list_all_iff dest: map_of_SomeD)

lemma registry_ok_update:
  "registry_ok products \<Longrightarrow> id' (fields pol) = k \<Longrightarrow> registry_ok (AList.update k pol products)"
  by (induction products) (auto simp: registry_ok_def)

lemma registry_ok_Trader_products: "registry_ok Trader_products"
  by (simp add: registry_ok_def Trader_products_def RainforestResin_init_def Kelp_init_def
      Product_init_def)

lemma book_of_key:
  "k \<in> fst ` set (order_depths state) \<Longrightarrow> map_of (order_depths state) k \<noteq> None"
  by (simp add: map_of_eq_None_iff)

text \<open>The call of a registered policy inside the loop, on a key of the order-depth mapping.\<close>

lemma trade_in_loop:
  assumes reg: "registry_ok products" and pol: "map_of products k = Some pol"
    and key: "k \<in> fst ` set (order_depths state)"
  shows "\<exists>pol'. id' (fields pol') = k \<and>
     trade pol state lg = (Inr (decide pol state), pol', lg\<lparr>logs := logs lg @ trade_text pol state\<rparr>)"
proof -
  have idk: "id' (fields pol) = k"
    using reg pol by (rule registry_ok_lookup)
  have "map_of (order_depths state) (id' (fields pol)) \<noteq> None"
    using key by (simp add: idk book_of_key)
  then have r: "fst (trade pol state Logger_init) = Inr (decide pol state)"
    by (rule trade_returns)
  have "id' (fields (fst (snd (trade pol state Logger_init)))) = k"
    by (simp add: trade_fields idk)
  then show ?thesis
    by (subst trade_logger) (simp add: r)
qed

lemma run_loop_returns:
  assumes "registry_ok products" and "set ks \<subseteq> fst ` set (order_depths state)"
  shows "\<exists>products' result' logger'.
     run_loop ks state products result logger = (Inr (), products', result', logger')"
  using assms
proof (induction ks arbitrary: products result logger)
  case Nil
  then show ?case by simp
next
  case (Cons k ks)
  show ?case
  proof (cases "map_of products k")
    case None
    then show ?thesis using Cons by (simp add: Let_def)
  next
    case (Some pol)
    from Cons.prems have key: "k \<in> fst ` set (order_depths state)" by simp
    note t = trade_in_loop [OF Cons.prems(1) Some key]
    obtain pol2 where id2: "id' (fields pol2) = k"
      and t2: "trade pol state (Logger_print logger [''Processing product: '' @ k]) =
          (Inr (decide pol state), pol2,
           (Logger_print logger [''Processing product: '' @ k])
             \<lparr>logs := logs (Logger_print logger [''Processing product: '' @ k]) @ trade_text pol state\<rparr>)"
      using t by blast
    have "registry_ok (AList.update k pol2 products)"
      using Cons.prems(1) id2 by (rule registry_ok_update)
    from Cons.IH [OF this] Cons.prems(2)
    show ?thesis using Some t2 by (simp add: Let_def)
  qed
qed









text \<open>
  C10. With the registry of the trader and an open standard output, \<open>Trader.run\<close>
  returns, on every tick, the conversion count 1 and the empty string as the outgoing
  trader-state, whatever the tick holds.
\<close>

theorem Trader_run_constants:
  assumes reg: "registry_ok products" and out: "\<not> closed out"
  shows "\<exists>result. fst (Trader_run float_repr products state logger out) = Inr (result, 1, '''')"
proof -
  have "set (map fst (order_depths state)) \<subseteq> fst ` set (order_depths state)"
    by simp
  from run_loop_returns [OF reg this, of "[]" logger]
  obtain products' result' logger' where
    "run_loop (map fst (order_depths state)) state products [] logger =
       (Inr (), products', result', logger')"
    by blast
  then show ?thesis
    using out by (simp add: Trader_run_def Logger_flush_open)
qed

theorem Trader_run_constants_witness:
  "registry_ok Trader_products \<and> \<not> closed stdout_open \<and>
   (\<exists>result. fst (Trader_run no_floats Trader_products
        (tick [(''KELP'', \<lparr>buy_orders = [], sell_orders = []\<rparr>)] []) Logger_init stdout_open)
      = Inr (result, 1, ''''))"
proof -
  have out: "\<not> closed stdout_open"
    by (simp add: stdout_open_def)
  from Trader_run_constants [OF registry_ok_Trader_products out] registry_ok_Trader_products out
  show ?thesis by blast
qed

end
